theory Spec2Isabelle
  imports Complex_Main
begin

section \<open>Python values\<close>

text \<open>
  The report endpoint of \<^verbatim>\<open>backend.py\<close> receives \<^verbatim>\<open>attempts: List[dict]\<close>: a list of
  decoded JSON objects whose values are arbitrary JSON. The values are modelled by one datatype.
  A dict is an association list read with \<open>map_of\<close> (the first pair of a key holds its
  value); its keys are strings, as JSON keys are.
  A float is identified with the real number it denotes (only its being zero is ever used).
  A string is the list of its UTF-8 bytes.
\<close>

datatype pyval =
    PNone
  | PBool bool
  | PInt int
  | PFloat real
  | PStr string
  | PList "pyval list"
  | PDict "(string \<times> pyval) list"

type_synonym pydict = "(string \<times> pyval) list"

text \<open>The exceptions that the modelled code can meet. \<open>ServiceError\<close> stands for any
  \<^verbatim>\<open>Exception\<close> raised by the external \<^verbatim>\<open>bedrock.converse\<close> call, with its message.\<close>

datatype py_error =
    KeyError
  | IndexError
  | TypeError
  | AttributeError
  | ValidationError
  | ServiceError string

text \<open>Truth value testing (\<^verbatim>\<open>if x\<close>, \<^verbatim>\<open>x and y\<close>, \<^verbatim>\<open>not x\<close>).\<close>

fun truthy :: "pyval \<Rightarrow> bool" where
  "truthy PNone = False"
| "truthy (PBool b) = b"
| "truthy (PInt i) = (i \<noteq> 0)"
| "truthy (PFloat r) = (r \<noteq> 0)"
| "truthy (PStr s) = (s \<noteq> [])"
| "truthy (PList xs) = (xs \<noteq> [])"
| "truthy (PDict d) = (d \<noteq> [])"

text \<open>\<^verbatim>\<open>d.get(k, default)\<close> on a dict: the default is returned only when the key is absent.\<close>

definition dict_get :: "pydict \<Rightarrow> string \<Rightarrow> pyval \<Rightarrow> pyval" where
  "dict_get d k dflt = (case map_of d k of None \<Rightarrow> dflt | Some v \<Rightarrow> v)"

text \<open>\<^verbatim>\<open>v.get(k, default)\<close> on an arbitrary value: only a dict has the attribute \<^verbatim>\<open>get\<close>.\<close>

fun py_get :: "pyval \<Rightarrow> string \<Rightarrow> pyval \<Rightarrow> py_error + pyval" where
  "py_get (PDict d) k dflt = Inr (dict_get d k dflt)"
| "py_get _ k dflt = Inl AttributeError"

text \<open>\<^verbatim>\<open>v[k]\<close> with a string key \<open>k\<close>.\<close>

fun py_getitem_key :: "pyval \<Rightarrow> string \<Rightarrow> py_error + pyval" where
  "py_getitem_key (PDict d) k = (case map_of d k of None \<Rightarrow> Inl KeyError | Some v \<Rightarrow> Inr v)"
| "py_getitem_key _ k = Inl TypeError"

text \<open>\<^verbatim>\<open>v[i]\<close> with an integer \<open>i\<close>; a negative index counts from the end. A dict with string
  keys has no integer key.\<close>

definition seq_index :: "'a list \<Rightarrow> int \<Rightarrow> 'a option" where
  "seq_index xs i =
     (if 0 \<le> i \<and> i < int (length xs) then Some (xs ! nat i)
      else if i < 0 \<and> - int (length xs) \<le> i then Some (xs ! nat (int (length xs) + i))
      else None)"

fun py_getitem_index :: "pyval \<Rightarrow> int \<Rightarrow> py_error + pyval" where
  "py_getitem_index (PList xs) i =
     (case seq_index xs i of None \<Rightarrow> Inl IndexError | Some v \<Rightarrow> Inr v)"
| "py_getitem_index (PStr s) i =
     (case seq_index s i of None \<Rightarrow> Inl IndexError | Some c \<Rightarrow> Inr (PStr [c]))"
| "py_getitem_index (PDict d) i = Inl KeyError"
| "py_getitem_index _ i = Inl TypeError"

text \<open>Sequencing of computations that may raise.\<close>

definition bind_err :: "py_error + 'a \<Rightarrow> ('a \<Rightarrow> py_error + 'b) \<Rightarrow> py_error + 'b" where
  "bind_err m f = (case m of Inl e \<Rightarrow> Inl e | Inr v \<Rightarrow> f v)"

subsection \<open>Conversion to text\<close>

definition digit_char :: "nat \<Rightarrow> char" where
  "digit_char d = char_of (48 + d)"

function str_nat :: "nat \<Rightarrow> string" where
  "str_nat n = (if n < 10 then [digit_char n] else str_nat (n div 10) @ [digit_char (n mod 10)])"
  by pat_completeness auto
termination
  by (relation "measure id") auto

declare str_nat.simps [simp del]

text \<open>The decimal text of an int. Every int has one here; the interpreter's limit on the
  number of digits of such a conversion is not modelled.\<close>

definition str_int :: "int \<Rightarrow> string" where
  "str_int i = (if i < 0 then CHR ''-'' # str_nat (nat (- i)) else str_nat (nat i))"

text \<open>
  \<^verbatim>\<open>str(v)\<close>, which is what an f-string field \<^verbatim>\<open>{v}\<close> inserts. The text of a float, a list
  or a dict is not modelled: it is whatever the parameter \<open>R\<close> gives.
\<close>

fun py_str :: "(pyval \<Rightarrow> string) \<Rightarrow> pyval \<Rightarrow> string" where
  "py_str R (PStr s) = s"
| "py_str R PNone = ''None''"
| "py_str R (PBool b) = (if b then ''True'' else ''False'')"
| "py_str R (PInt i) = str_int i"
| "py_str R v = R v"

text \<open>\<^verbatim>\<open>sep.join(xs)\<close>.\<close>

fun py_join :: "string \<Rightarrow> string list \<Rightarrow> string" where
  "py_join sep [] = []"
| "py_join sep [x] = x"
| "py_join sep (x # y # ys) = x @ sep @ py_join sep (y # ys)"

section \<open>The attempt formatter\<close>

text \<open>The condition of the loop of \<^verbatim>\<open>format_attempts_for_ai\<close>:
  \<^verbatim>\<open>attempt.get('error_type') and attempt['error_type'] != 'none'\<close>.\<close>

definition mistake_condition :: "pydict \<Rightarrow> py_error + bool" where
  "mistake_condition attempt =
     (if truthy (dict_get attempt ''error_type'' PNone)
      then bind_err (py_getitem_key (PDict attempt) ''error_type'')
             (\<lambda>v. Inr (v \<noteq> PStr ''none''))
      else Inr False)"

text \<open>The body of the loop for an attempt that passed the condition: the four fields are read,
  then interpolated into the block.\<close>

definition format_block :: "(pyval \<Rightarrow> string) \<Rightarrow> pydict \<Rightarrow> py_error + string" where
  "format_block R attempt =
     bind_err (py_get (dict_get attempt ''question'' (PDict [])) ''topic'' (PStr ''Unknown''))
       (\<lambda>topic.
          let error_type = dict_get attempt ''error_type'' (PStr ''Unknown'');
              explanation = dict_get attempt ''explanation'' (PStr ''No explanation provided'');
              question_id = dict_get attempt ''question_id'' (PStr ''Unknown'')
          in Inr (''\<newline>Topic - '' @ py_str R topic @
                  ''\<newline>Mistake Type - '' @ py_str R error_type @
                  ''\<newline>Explanation - '' @ py_str R explanation @
                  ''\<newline>Question ID - '' @ py_str R question_id @
                  ''\<newline>''))"

text \<open>The loop, with \<^verbatim>\<open>formatted_attempts\<close> as accumulator; an exception ends it.\<close>

fun format_loop :: "(pyval \<Rightarrow> string) \<Rightarrow> pydict list \<Rightarrow> string list \<Rightarrow> py_error + string list" where
  "format_loop R [] formatted_attempts = Inr formatted_attempts"
| "format_loop R (attempt # attempts) formatted_attempts =
     bind_err (mistake_condition attempt)
       (\<lambda>c. if c
            then bind_err (format_block R attempt)
                   (\<lambda>b. format_loop R attempts (formatted_attempts @ [b]))
            else format_loop R attempts formatted_attempts)"

definition no_mistakes_text :: string where
  "no_mistakes_text =
     ''No mistakes found in the provided attempts. All questions were answered correctly!''"

definition format_attempts_for_ai :: "(pyval \<Rightarrow> string) \<Rightarrow> pydict list \<Rightarrow> py_error + string" where
  "format_attempts_for_ai R attempts =
     bind_err (format_loop R attempts [])
       (\<lambda>formatted_attempts.
          if formatted_attempts = [] then Inr no_mistakes_text
          else Inr (py_join ''\<newline>'' formatted_attempts))"

section \<open>The generation client\<close>

text \<open>
  The Bedrock client is external. It is modelled by what one \<^verbatim>\<open>converse\<close> call does:
  given the model identifier and the message list it either raises or returns the decoded
  response. The module-level handle \<^verbatim>\<open>bedrock\<close> of \<^verbatim>\<open>backend.py\<close> is \<open>None\<close> when the
  credentials are missing.
\<close>

type_synonym bedrock_client = "string \<Rightarrow> pyval \<Rightarrow> py_error + pyval"

definition default_model_id :: string where
  "default_model_id = ''amazon.nova-pro-v1:0''"

text \<open>The local \<^verbatim>\<open>messages\<close> of \<^verbatim>\<open>generate_ai_response\<close>.\<close>

definition messages :: "string \<Rightarrow> string \<Rightarrow> pyval" where
  "messages system_prompt user_message =
     PList [PDict [(''role'', PStr ''user''),
                   (''content'',
                    PList [PDict [(''text'',
                      PStr (system_prompt @ ''\<newline>\<newline>User: '' @ user_message))]])]]"

text \<open>\<^verbatim>\<open>response['output']['message']['content'][0]['text']\<close>.\<close>

definition response_text :: "pyval \<Rightarrow> py_error + pyval" where
  "response_text response =
     bind_err (py_getitem_key response ''output'') (\<lambda>output.
     bind_err (py_getitem_key output ''message'') (\<lambda>message.
     bind_err (py_getitem_key message ''content'') (\<lambda>content.
     bind_err (py_getitem_index content 0) (\<lambda>first.
     py_getitem_key first ''text''))))"

text \<open>The statements inside \<^verbatim>\<open>try\<close>: the call, then the extraction.\<close>

definition converse_and_extract ::
    "bedrock_client \<Rightarrow> string \<Rightarrow> string \<Rightarrow> string \<Rightarrow> py_error + pyval" where
  "converse_and_extract client system_prompt user_message model_id =
     bind_err (client model_id (messages system_prompt user_message)) response_text"

text \<open>
  \<^verbatim>\<open>generate_ai_response\<close> of \<^verbatim>\<open>backend.py\<close>. The result is the returned value together with
  the \<^verbatim>\<open>converse\<close> calls that were made (model identifier and messages). \<^verbatim>\<open>except Exception\<close>
  turns every exception of the body into the return value \<open>None\<close>. The diagnostic
  \<^verbatim>\<open>print\<close> of the handler is not part of the model.
\<close>

definition generate_ai_response ::
    "bedrock_client option \<Rightarrow> string \<Rightarrow> string \<Rightarrow> string \<Rightarrow> pyval \<times> (string \<times> pyval) list" where
  "generate_ai_response bedrock system_prompt user_message model_id =
     (case bedrock of
        None \<Rightarrow> (PNone, [])
      | Some client \<Rightarrow>
          (case converse_and_extract client system_prompt user_message model_id of
             Inl e \<Rightarrow> (PNone, [(model_id, messages system_prompt user_message)])
           | Inr text \<Rightarrow> (text, [(model_id, messages system_prompt user_message)])))"

text \<open>
  \<^verbatim>\<open>generate_ai_response\<close> of \<^verbatim>\<open>ai_handler/experiment.py\<close>: the same body, but the module
  always creates a client and the function has no test of the handle. Missing credentials
  show up there as an exception of the call.
\<close>

definition experiment_generate_ai_response ::
    "bedrock_client \<Rightarrow> string \<Rightarrow> string \<Rightarrow> string \<Rightarrow> pyval \<times> (string \<times> pyval) list" where
  "experiment_generate_ai_response client system_prompt user_message model_id =
     (case converse_and_extract client system_prompt user_message model_id of
        Inl e \<Rightarrow> (PNone, [(model_id, messages system_prompt user_message)])
      | Inr text \<Rightarrow> (text, [(model_id, messages system_prompt user_message)]))"

section \<open>The report endpoint\<close>

text \<open>The bullet character U+2022 of the source text, as its UTF-8 bytes.\<close>

definition bullet :: string where
  "bullet = [CHR 0xE2, CHR 0x80, CHR 0xA2]"

definition system_prompt :: string where
  "system_prompt =
     ''\<newline>'' @
     ''You are an experienced mathematics tutor. Your role is to help students learn from their mistakes by analyzing their incorrect responses and providing targeted feedback.\<newline>'' @
     ''Please have a maximum of 250 words\<newline>'' @
     ''## Your Task\<newline>'' @
     ''\<newline>'' @
     ''When you receive student mistake data, you will:\<newline>'' @
     ''\<newline>'' @
     ''1. **Analyze the mistake patterns** across different topics and question types\<newline>'' @
     ''2. **Summarize key learning areas** that need attention\<newline>'' @
     ''3. **Create targeted bullet points** for each mistake to help students remember and avoid repeating errors\<newline>'' @
     ''4. **Provide constructive feedback**\<newline>'' @
     ''\<newline>'' @
     ''## Data Format You'll Receive\<newline>'' @
     ''\<newline>'' @
     ''The student mistake data will be formatted as:\<newline>'' @
     ''- **Question ID** - [number]\<newline>'' @
     ''- **Topic** - [Australian curriculum topic area]\<newline>'' @
     ''- **Mistake Type** - [silly mistake/concept error/etc.]\<newline>'' @
     ''- **Explanation** - [student's explanation of what went wrong]\<newline>'' @
     ''\<newline>'' @
     ''## Your Response Structure\<newline>'' @
     ''\<newline>'' @
     ''### 1. Overall Summary\<newline>'' @
     ''Provide a brief overview of the student's performance patterns, highlighting:\<newline>'' @
     ''- Main topic areas with difficulties\<newline>'' @
     ''- Types of mistakes (silly errors vs content gaps)\<newline>'' @
     ''- Overall learning priorities\<newline>'' @
     ''\<newline>'' @
     ''### 2. Topic-by-Topic Breakdown\<newline>'' @
     ''For each mathematical topic, create:\<newline>'' @
     ''\<newline>'' @
     ''**[Topic Name]:**\<newline>'' @
     ''- **Mistake Pattern**: [Brief description of what went wrong]\<newline>'' @
     ''- **Remember**: [Key point to prevent this mistake]\<newline>'' @
     ''- **Next Steps**: [Specific practice recommendation]\<newline>'' @
     ''\<newline>'' @
     ''### 3. Key Reminders\<newline>'' @
     ''Create memorable bullet points using:\<newline>'' @
     ''- **Silly Mistakes**: Focus on checking procedures and common traps\<newline>'' @
     ''- **Concept Errors**: Address fundamental concept gaps\<newline>'' @
     ''\<newline>'' @
     ''## Tone and Approach\<newline>'' @
     ''\<newline>'' @
     ''- **Encouraging**: Frame mistakes as learning opportunities\<newline>'' @
     ''- **Specific**: Give concrete, actionable advice\<newline>'' @
     ''- **Practical**: Provide strategies students can immediately apply\<newline>'' @
     ''- **Australian context**: Use familiar terminology and examples\<newline>'' @
     ''\<newline>'' @
     ''## Example Response Format\<newline>'' @
     ''\<newline>'' @
     ''**Overall Summary:**\<newline>'' @
     ''Based on your recent practice sessions, you're showing strong mathematical reasoning but need to focus on accuracy in algebraic manipulation and careful attention to detail.\<newline>'' @
     ''\<newline>'' @
     ''**Algebra:**\<newline>'' @
     ''- **Mistake Pattern**: Sign errors when rearranging equations\<newline>'' @
     ''- **Remember**: \"When moving terms across the equals sign, flip the sign - positive becomes negative, negative becomes positive\"\<newline>'' @
     ''- **Next Steps**: Practice 10 simple rearrangement problems daily, checking each step\<newline>'' @
     ''\<newline>'' @
     ''**Key Reminders:**\<newline>'' @
     bullet @ '' Always double-check sign changes when rearranging equations\<newline>'' @
     bullet @ '' Show all working steps to catch errors early\<newline>'' @
     bullet @ '' Take time to verify final answers by substitution\<newline>'' @
     ''\<newline>'' @
     ''**Strengths to Build On:**\<newline>'' @
     bullet @ '' Strong understanding of mathematical concepts\<newline>'' @
     bullet @ '' Good problem-solving approach\<newline>'' @
     ''\<newline>'' @
     ''Remember: Every mistake is a step toward mastery. Focus on understanding why each error occurred rather than just getting the right answer.\<newline>''"

text \<open>The two counts of the fallback branch:
  \<^verbatim>\<open>sum(1 for attempt in request.attempts if attempt.get('error_type') == 'silly')\<close> and the same
  with \<^verbatim>\<open>'concept'\<close>.\<close>

definition count_error_type :: "string \<Rightarrow> pydict list \<Rightarrow> int" where
  "count_error_type name attempts =
     sum_list (map (\<lambda>attempt. 1)
       (filter (\<lambda>attempt. dict_get attempt ''error_type'' PNone = PStr name) attempts))"

text \<open>The fallback branch of \<^verbatim>\<open>generate_report\<close> (the body of \<^verbatim>\<open>if not ai_response\<close>).\<close>

definition fallback_report :: "pydict list \<Rightarrow> string" where
  "fallback_report attempts =
     (let silly_mistakes = count_error_type ''silly'' attempts;
          concept_errors = count_error_type ''concept'' attempts
      in ''**Overall Summary:**\<newline>'' @
         ''Based on your recent practice sessions, you completed '' @
         str_int (int (length attempts)) @ '' questions. You made '' @
         str_int silly_mistakes @ '' silly mistakes and '' @
         str_int concept_errors @ '' concept errors.\<newline>'' @
         ''\<newline>'' @
         ''**Key Areas for Improvement:**\<newline>'' @
         ''- Focus on double-checking your work to avoid silly mistakes\<newline>'' @
         ''- Review fundamental concepts where you had difficulties\<newline>'' @
         ''- Practice more problems in topics where you made errors\<newline>'' @
         ''\<newline>'' @
         ''**General Advice:**\<newline>'' @
         bullet @ '' Take your time when working through problems\<newline>'' @
         bullet @ '' Show all working steps to catch errors early\<newline>'' @
         bullet @ '' Review your mistakes to understand what went wrong\<newline>'' @
         bullet @ '' Practice regularly to build confidence\<newline>'' @
         ''\<newline>'' @
         ''Remember: Every mistake is a learning opportunity. Keep practicing and you'll continue to improve!\<newline>'' @
         ''\<newline>'' @
         ''*Note: This is a basic report. For detailed AI analysis, please check your AWS Bedrock configuration.*'')"

text \<open>\<^verbatim>\<open>ReportResponse(report=...)\<close>: the field is declared \<^verbatim>\<open>str\<close>, and the validation of the
  model rejects a value that is not a string.\<close>

fun ReportResponse :: "pyval \<Rightarrow> py_error + string" where
  "ReportResponse (PStr s) = Inr s"
| "ReportResponse _ = Inl ValidationError"

text \<open>
  \<^verbatim>\<open>generate_report\<close>. The formatter runs first, before the handle is looked at, so an
  exception of the formatter leaves the function whether or not a client is configured.
\<close>

definition generate_report ::
    "bedrock_client option \<Rightarrow> (pyval \<Rightarrow> string) \<Rightarrow> pydict list \<Rightarrow> py_error + string" where
  "generate_report bedrock R attempts =
     bind_err (format_attempts_for_ai R attempts)
       (\<lambda>formatted_attempts.
          let ai_response =
                (if bedrock \<noteq> None
                 then fst (generate_ai_response bedrock system_prompt formatted_attempts
                             default_model_id)
                 else PNone);
              ai_response =
                (if \<not> truthy ai_response then PStr (fallback_report attempts)
                 else ai_response)
          in ReportResponse ai_response)"

section \<open>Descriptions used in the statements\<close>

text \<open>
  The definitions of this section are not translations of source functions. They describe, in
  the terms of the specification, what the theorems below prove about the functions above.
\<close>

text \<open>An attempt is formatted as a mistake when its \<^verbatim>\<open>error_type\<close> value is truthy and is not
  the string \<^verbatim>\<open>none\<close>.\<close>

definition is_mistake :: "pydict \<Rightarrow> bool" where
  "is_mistake attempt =
     (case map_of attempt ''error_type'' of
        None \<Rightarrow> False
      | Some v \<Rightarrow> truthy v \<and> v \<noteq> PStr ''none'')"

text \<open>The inclusion rule in the words of the specification: the \<^verbatim>\<open>error_type\<close> field is
  present (a null counts as absent) and not equal to \<^verbatim>\<open>none\<close>.\<close>

definition spec_present_not_none :: "pydict \<Rightarrow> bool" where
  "spec_present_not_none attempt =
     (case map_of attempt ''error_type'' of
        None \<Rightarrow> False
      | Some v \<Rightarrow> v \<noteq> PNone \<and> v \<noteq> PStr ''none'')"

text \<open>The \<^verbatim>\<open>question\<close> object of an attempt, when the formatter can read it: an absent key
  gives the empty dict, a dict is itself, and nothing else has a \<^verbatim>\<open>get\<close>.\<close>

definition question_of :: "pydict \<Rightarrow> pydict option" where
  "question_of attempt =
     (case map_of attempt ''question'' of
        None \<Rightarrow> Some []
      | Some (PDict q) \<Rightarrow> Some q
      | Some _ \<Rightarrow> None)"

text \<open>The text of a field: the default only when the key is absent.\<close>

definition field_text :: "(pyval \<Rightarrow> string) \<Rightarrow> pydict \<Rightarrow> string \<Rightarrow> string \<Rightarrow> string" where
  "field_text R d k dflt = (case map_of d k of None \<Rightarrow> dflt | Some v \<Rightarrow> py_str R v)"

text \<open>The four labelled lines of a block, and the block: a line break, then each line
  with its line break.\<close>

definition four_lines :: "string \<Rightarrow> string \<Rightarrow> string \<Rightarrow> string \<Rightarrow> string list" where
  "four_lines t e x q =
     [''Topic - '' @ t, ''Mistake Type - '' @ e, ''Explanation - '' @ x, ''Question ID - '' @ q]"

definition block_text :: "string \<Rightarrow> string \<Rightarrow> string \<Rightarrow> string \<Rightarrow> string" where
  "block_text t e x q =
     CHR ''\<newline>'' # concat (map (\<lambda>l. l @ [CHR ''\<newline>'']) (four_lines t e x q))"

definition block_of :: "(pyval \<Rightarrow> string) \<Rightarrow> pydict \<Rightarrow> string option" where
  "block_of R attempt =
     (case question_of attempt of
        None \<Rightarrow> None
      | Some q \<Rightarrow>
          Some (block_text (field_text R q ''topic'' ''Unknown'')
                           (field_text R attempt ''error_type'' ''Unknown'')
                           (field_text R attempt ''explanation'' ''No explanation provided'')
                           (field_text R attempt ''question_id'' ''Unknown'')))"

text \<open>The lines of a text, split at every line break, and those that are not empty.\<close>

fun lines_of :: "string \<Rightarrow> string list" where
  "lines_of [] = [Nil]"
| "lines_of (c # cs) =
     (if c = CHR ''\<newline>'' then [] # lines_of cs
      else (case lines_of cs of [] \<Rightarrow> [c] # [] | l # ls \<Rightarrow> (c # l) # ls))"

definition text_lines :: "string \<Rightarrow> string list" where
  "text_lines s = filter (\<lambda>l. l \<noteq> []) (lines_of s)"

text \<open>A rendering of floats, lists and dicts, for the concrete examples.\<close>

definition opaque_text :: "pyval \<Rightarrow> string" where
  "opaque_text v = ''<value>''"

text \<open>The counted categories in the words of the specification: \<^verbatim>\<open>error_type == name\<close>.\<close>

definition has_error_type :: "string \<Rightarrow> pydict \<Rightarrow> bool" where
  "has_error_type name attempt = (map_of attempt ''error_type'' = Some (PStr name))"

text \<open>The fixed text of the fallback report before its first number and after its last.\<close>

definition fallback_head :: string where
  "fallback_head =
     ''**Overall Summary:**\<newline>'' @
     ''Based on your recent practice sessions, you completed ''"

definition fallback_tail :: string where
  "fallback_tail =
     '' concept errors.\<newline>'' @
     ''\<newline>'' @
     ''**Key Areas for Improvement:**\<newline>'' @
     ''- Focus on double-checking your work to avoid silly mistakes\<newline>'' @
     ''- Review fundamental concepts where you had difficulties\<newline>'' @
     ''- Practice more problems in topics where you made errors\<newline>'' @
     ''\<newline>'' @
     ''**General Advice:**\<newline>'' @
     bullet @ '' Take your time when working through problems\<newline>'' @
     bullet @ '' Show all working steps to catch errors early\<newline>'' @
     bullet @ '' Review your mistakes to understand what went wrong\<newline>'' @
     bullet @ '' Practice regularly to build confidence\<newline>'' @
     ''\<newline>'' @
     ''Remember: Every mistake is a learning opportunity. Keep practicing and you'll continue to improve!\<newline>'' @
     ''\<newline>'' @
     ''*Note: This is a basic report. For detailed AI analysis, please check your AWS Bedrock configuration.*''"

text \<open>The number that a decimal numeral denotes.\<close>

definition dec_value :: "string \<Rightarrow> nat" where
  "dec_value s = foldl (\<lambda>n c. 10 * n + (of_char c - 48)) 0 s"

text \<open>Example clients: one that replies with a given text, one whose call raises, and one
  whose response has an empty content list.\<close>

definition reply_client :: "string \<Rightarrow> bedrock_client" where
  "reply_client t model_id msgs =
     Inr (PDict [(''output'',
            PDict [(''message'',
              PDict [(''role'', PStr ''assistant''),
                     (''content'', PList [PDict [(''text'', PStr t)]])])])])"

definition failing_client :: bedrock_client where
  "failing_client model_id msgs = Inl (ServiceError ''connection timed out'')"

definition malformed_client :: bedrock_client where
  "malformed_client model_id msgs =
     Inr (PDict [(''output'', PDict [(''message'', PDict [(''content'', PList [])])])])"

text \<open>Example attempts.\<close>

definition attempt_null_question :: pydict where
  "attempt_null_question = [(''error_type'', PStr ''silly''), (''question'', PNone)]"

definition attempt_empty_error_type :: pydict where
  "attempt_empty_error_type = [(''error_type'', PStr [])]"

definition attempt_null_error_type :: pydict where
  "attempt_null_error_type = [(''error_type'', PNone), (''question'', PNone)]"

definition attempt_none :: pydict where
  "attempt_none = [(''error_type'', PStr ''none'')]"

definition attempt_silly :: pydict where
  "attempt_silly = [(''error_type'', PStr ''silly'')]"

definition attempt_concept :: pydict where
  "attempt_concept = [(''error_type'', PStr ''concept'')]"

definition attempt_algebra :: pydict where
  "attempt_algebra =
     [(''question_id'', PInt 15), (''error_type'', PStr ''silly''),
      (''explanation'', PStr ''sign error''),
      (''question'', PDict [(''topic'', PStr ''Algebra'')])]"

definition attempt_null_explanation :: pydict where
  "attempt_null_explanation =
     [(''question_id'', PInt 23), (''error_type'', PStr ''concept''),
      (''explanation'', PNone)]"

definition attempt_null_explanation_and_question :: pydict where
  "attempt_null_explanation_and_question =
     [(''error_type'', PStr ''silly''), (''explanation'', PNone), (''question'', PNone)]"

definition attempt_two_line_explanation :: pydict where
  "attempt_two_line_explanation =
     [(''error_type'', PStr ''silly''), (''explanation'', PStr ''a\<newline>b'')]"

section \<open>Basic facts\<close>

lemma bind_err_simps [simp]:
  "bind_err (Inl e) f = Inl e"
  "bind_err (Inr v) f = f v"
  by (simp_all add: bind_err_def)

lemma bind_err_eq_Inr:
  "bind_err m f = Inr y \<longleftrightarrow> (\<exists>v. m = Inr v \<and> f v = Inr y)"
  by (cases m) simp_all

lemma mistake_condition_eq: "mistake_condition attempt = Inr (is_mistake attempt)"
  by (cases "map_of attempt ''error_type''")
     (simp_all add: mistake_condition_def is_mistake_def dict_get_def)

lemma format_loop_acc:
  "format_loop R attempts acc = bind_err (format_loop R attempts []) (\<lambda>bs. Inr (acc @ bs))"
proof (induction attempts arbitrary: acc)
  case Nil
  show ?case by simp
next
  case (Cons a attempts)
  show ?case
  proof (cases "is_mistake a")
    case False
    then show ?thesis using Cons.IH [of acc] by (simp add: mistake_condition_eq)
  next
    case True
    show ?thesis
    proof (cases "format_block R a")
      case (Inl e)
      then show ?thesis using True by (simp add: mistake_condition_eq)
    next
      case (Inr b)
      have "format_loop R attempts (acc @ [b]) =
              bind_err (format_loop R attempts []) (\<lambda>bs. Inr ((acc @ [b]) @ bs))"
        by (rule Cons.IH)
      moreover have "format_loop R attempts [b] =
              bind_err (format_loop R attempts []) (\<lambda>bs. Inr ([b] @ bs))"
        using Cons.IH [of "[b]"] by simp
      ultimately show ?thesis using True Inr
        by (cases "format_loop R attempts []") (simp_all add: mistake_condition_eq)
    qed
  qed
qed


lemma py_str_dict_get: "py_str R (dict_get d k (PStr dflt)) = field_text R d k dflt"
  by (cases "map_of d k") (simp_all add: dict_get_def field_text_def)

lemma format_block_eq:
  "format_block R attempt =
     (case block_of R attempt of None \<Rightarrow> Inl AttributeError | Some b \<Rightarrow> Inr b)"
proof (cases "map_of attempt ''question''")
  case None
  then show ?thesis
    by (simp add: format_block_def block_of_def question_of_def dict_get_def [of attempt "''question''"]
        py_str_dict_get block_text_def four_lines_def)
next
  case (Some v)
  then show ?thesis
    by (cases v)
       (simp_all add: format_block_def block_of_def question_of_def dict_get_def [of attempt "''question''"]
        py_str_dict_get block_text_def four_lines_def)
qed

lemma format_loop_Cons:
  "format_loop R (a # attempts) [] =
     (if is_mistake a
      then (case block_of R a of
              None \<Rightarrow> Inl AttributeError
            | Some b \<Rightarrow> bind_err (format_loop R attempts []) (\<lambda>bs. Inr (b # bs)))
      else format_loop R attempts [])"
  using format_loop_acc [of R attempts "[b]" for b]
  by (simp add: mistake_condition_eq format_block_eq split: option.splits)

declare format_loop.simps(2) [simp del]

lemma format_loop_Inr_iff:
  "format_loop R attempts [] = Inr bs \<longleftrightarrow>
     map Some bs = map (block_of R) (filter is_mistake attempts)"
proof (induction attempts arbitrary: bs)
  case Nil
  show ?case by auto
next
  case (Cons a attempts)
  show ?case
  proof (cases "is_mistake a")
    case False
    then show ?thesis using Cons.IH by (simp add: format_loop_Cons)
  next
    case True
    show ?thesis
    proof (cases "block_of R a")
      case None
      then show ?thesis using True by (auto simp: format_loop_Cons)
    next
      case (Some b)
      show ?thesis
      proof (cases "format_loop R attempts []")
        case (Inl e)
        then have "\<And>cs. map Some cs \<noteq> map (block_of R) (filter is_mistake attempts)"
          using Cons.IH by auto
        then show ?thesis using True Some Inl
          by (cases bs) (auto simp: format_loop_Cons)
      next
        case (Inr cs)
        then have eq: "map Some cs = map (block_of R) (filter is_mistake attempts)"
          using Cons.IH by simp
        have "map Some bs = Some b # map Some cs \<longleftrightarrow> bs = b # cs"
          by (cases bs) auto
        then show ?thesis using True Some Inr eq
          by (auto simp: format_loop_Cons)
      qed
    qed
  qed
qed

lemma lines_of_line:
  "CHR ''\<newline>'' \<notin> set l \<Longrightarrow> lines_of (l @ CHR ''\<newline>'' # rest) = l # lines_of rest"
  by (induction l) auto

lemma lines_of_block_text:
  assumes "CHR ''\<newline>'' \<notin> set t" "CHR ''\<newline>'' \<notin> set e"
    "CHR ''\<newline>'' \<notin> set x" "CHR ''\<newline>'' \<notin> set q"
  shows "lines_of (block_text t e x q) = [] # four_lines t e x q @ [Nil]"
proof -
  have "\<And>l. l \<in> set (four_lines t e x q) \<Longrightarrow> CHR ''\<newline>'' \<notin> set l"
    using assms by (auto simp: four_lines_def)
  then have "\<And>ls. set ls \<subseteq> set (four_lines t e x q) \<Longrightarrow>
      lines_of (concat (map (\<lambda>l. l @ [CHR ''\<newline>'']) ls)) = ls @ [Nil]"
  proof -
    fix ls :: "string list"
    assume a: "set ls \<subseteq> set (four_lines t e x q)"
      and b: "\<And>l. l \<in> set (four_lines t e x q) \<Longrightarrow> CHR ''\<newline>'' \<notin> set l"
    then show "lines_of (concat (map (\<lambda>l. l @ [CHR ''\<newline>'']) ls)) = ls @ [Nil]"
      by (induction ls) (auto simp: lines_of_line)
  qed
  then show ?thesis by (simp add: block_text_def)
qed


lemma format_loop_append:
  "format_loop R (xs @ ys) acc = bind_err (format_loop R xs acc) (format_loop R ys)"
proof (induction xs arbitrary: acc)
  case Nil
  show ?case by simp
next
  case (Cons a xs)
  show ?case
  proof (cases "is_mistake a")
    case False
    then show ?thesis using Cons.IH by (simp add: format_loop.simps(2) mistake_condition_eq)
  next
    case True
    then show ?thesis using Cons.IH
      by (cases "format_block R a") (simp_all add: format_loop.simps(2) mistake_condition_eq)
  qed
qed

lemma str_int_examples:
  "str_int 0 = ''0''" "str_int 1 = ''1''" "str_int 2 = ''2''" "str_int 4 = ''4''"
  "str_int 15 = ''15''" "str_int 23 = ''23''"
  by code_simp+

section \<open>The formatter\<close>

text \<open>
  Claim C4. For every list of attempts in which every attempt has its \<^verbatim>\<open>error_type\<close> absent,
  null or equal to \<^verbatim>\<open>none\<close> (the empty list included), the formatter returns exactly the
  sentence "No mistakes found in the provided attempts. All questions were answered correctly!".
\<close>

theorem no_mistakes_sentence:
  assumes "\<forall>attempt \<in> set attempts.
             map_of attempt ''error_type'' = None \<or>
             map_of attempt ''error_type'' = Some PNone \<or>
             map_of attempt ''error_type'' = Some (PStr ''none'')"
  shows "format_attempts_for_ai R attempts =
           Inr ''No mistakes found in the provided attempts. All questions were answered correctly!''"
proof -
  have "\<forall>attempt \<in> set attempts. \<not> is_mistake attempt"
    using assms by (auto simp: is_mistake_def)
  then have "filter is_mistake attempts = []"
    by (simp add: filter_empty_conv)
  then have "format_loop R attempts [] = Inr []"
    by (simp add: format_loop_Inr_iff)
  then show ?thesis
    by (simp add: format_attempts_for_ai_def no_mistakes_text_def)
qed

theorem no_mistakes_sentence_witness:
  "format_attempts_for_ai opaque_text [Nil, attempt_null_error_type, attempt_none] =
     Inr ''No mistakes found in the provided attempts. All questions were answered correctly!''"
  using no_mistakes_sentence [of "[Nil, attempt_null_error_type, attempt_none]" opaque_text]
  by (simp add: attempt_null_error_type_def attempt_none_def)

text \<open>
  Claim C3, as stated: the number of blocks equals the number of attempts whose
  \<^verbatim>\<open>error_type\<close> is present and not \<^verbatim>\<open>none\<close>. It fails for an attempt whose \<^verbatim>\<open>error_type\<close> is
  the empty string: the field is present and is not \<^verbatim>\<open>none\<close>, and no block is built.
\<close>

theorem block_count_not_presence:
  "format_loop opaque_text [attempt_empty_error_type] [] = Inr [] \<and>
   length (filter spec_present_not_none [attempt_empty_error_type]) = 1"
  by (simp add: attempt_empty_error_type_def format_loop.simps(2) mistake_condition_def
      dict_get_def spec_present_not_none_def)

text \<open>
  Claim C3, amended. Whenever the formatter returns, the number of blocks equals the number of
  attempts whose \<^verbatim>\<open>error_type\<close> value is truthy (present, and not null, empty, zero or false)
  and not equal to \<^verbatim>\<open>none\<close>.
\<close>

theorem block_count:
  assumes "format_loop R attempts [] = Inr bs"
  shows "length bs = length (filter is_mistake attempts)"
proof -
  have "map Some bs = map (block_of R) (filter is_mistake attempts)"
    using assms by (simp add: format_loop_Inr_iff)
  then have "length (map Some bs) = length (map (block_of R) (filter is_mistake attempts))"
    by simp
  then show ?thesis by simp
qed

theorem block_count_witness:
  "format_loop opaque_text [attempt_silly, attempt_empty_error_type, attempt_none, attempt_algebra] [] =
     Inr [''\<newline>Topic - Unknown\<newline>Mistake Type - silly\<newline>Explanation - No explanation provided\<newline>Question ID - Unknown\<newline>'',
          ''\<newline>Topic - Algebra\<newline>Mistake Type - silly\<newline>Explanation - sign error\<newline>Question ID - 15\<newline>''] \<and>
   length (filter is_mistake [attempt_silly, attempt_empty_error_type, attempt_none, attempt_algebra]) = 2"
proof -
  have run: "format_loop opaque_text [attempt_silly, attempt_empty_error_type, attempt_none, attempt_algebra] [] =
     Inr [''\<newline>Topic - Unknown\<newline>Mistake Type - silly\<newline>Explanation - No explanation provided\<newline>Question ID - Unknown\<newline>'',
          ''\<newline>Topic - Algebra\<newline>Mistake Type - silly\<newline>Explanation - sign error\<newline>Question ID - 15\<newline>'']"
    by (simp add: attempt_silly_def attempt_empty_error_type_def attempt_none_def
        attempt_algebra_def format_loop.simps(2) mistake_condition_def format_block_def
        dict_get_def str_int_examples)
  show ?thesis using run block_count [OF run] by simp
qed

text \<open>
  Claim C10. An attempt whose \<^verbatim>\<open>error_type\<close> key holds a falsy value (the empty string, zero,
  false, an empty list or dict; null as well) fails the loop condition, and the formatter
  gives the same result with the attempt as without it: inclusion follows the truth value of
  the field, not the presence of the key.
\<close>

theorem falsy_error_type_excluded:
  assumes "map_of attempt ''error_type'' = Some v" and "\<not> truthy v"
  shows "mistake_condition attempt = Inr False \<and>
         format_loop R (before @ attempt # after) acc = format_loop R (before @ after) acc \<and>
         format_attempts_for_ai R (before @ attempt # after) =
           format_attempts_for_ai R (before @ after)"
proof -
  have c: "mistake_condition attempt = Inr False"
    using assms by (simp add: mistake_condition_def dict_get_def)
  have "format_loop R (attempt # after) = format_loop R after"
    using c by (intro ext) (simp add: format_loop.simps(2))
  then have l: "\<And>acc'. format_loop R (before @ attempt # after) acc' = format_loop R (before @ after) acc'"
    by (simp add: format_loop_append)
  show ?thesis using c l by (simp add: format_attempts_for_ai_def)
qed

theorem falsy_error_type_excluded_witness:
  "mistake_condition attempt_empty_error_type = Inr False \<and>
   format_attempts_for_ai opaque_text [attempt_silly, attempt_empty_error_type] =
     Inr ''\<newline>Topic - Unknown\<newline>Mistake Type - silly\<newline>Explanation - No explanation provided\<newline>Question ID - Unknown\<newline>''"
proof -
  have "format_attempts_for_ai opaque_text [attempt_silly] =
     Inr ''\<newline>Topic - Unknown\<newline>Mistake Type - silly\<newline>Explanation - No explanation provided\<newline>Question ID - Unknown\<newline>''"
    by (simp add: attempt_silly_def format_attempts_for_ai_def format_loop.simps(2)
        mistake_condition_def format_block_def dict_get_def)
  then show ?thesis
    using falsy_error_type_excluded [of attempt_empty_error_type "PStr []" opaque_text
        "[attempt_silly]" Nil Nil]
    by (simp add: attempt_empty_error_type_def)
qed

section \<open>Malformed records\<close>

text \<open>The formatter returns exactly when every attempt that passes the loop condition has
  its \<^verbatim>\<open>question\<close> absent or a dict.\<close>

lemma map_Some_exists:
  "(\<exists>bs. map Some bs = map f xs) \<longleftrightarrow> (\<forall>x \<in> set xs. f x \<noteq> None)"
proof (induction xs)
  case Nil
  show ?case by simp
next
  case (Cons x xs)
  show ?case
  proof
    assume "\<exists>bs. map Some bs = map f (x # xs)"
    then obtain bs where bs: "map Some bs = map f (x # xs)" by blast
    then obtain b cs where "bs = b # cs" by (cases bs) auto
    with bs have "f x = Some b" "map Some cs = map f xs" by auto
    with Cons.IH show "\<forall>y \<in> set (x # xs). f y \<noteq> None" by auto
  next
    assume a: "\<forall>y \<in> set (x # xs). f y \<noteq> None"
    then obtain b where b: "f x = Some b" by auto
    from a Cons.IH obtain cs where "map Some cs = map f xs" by auto
    with b have "map Some (b # cs) = map f (x # xs)" by simp
    then show "\<exists>bs. map Some bs = map f (x # xs)" by blast
  qed
qed

lemma formatter_returns_iff:
  "(\<exists>text. format_attempts_for_ai R attempts = Inr text) \<longleftrightarrow>
     (\<forall>attempt \<in> set attempts. is_mistake attempt \<longrightarrow> question_of attempt \<noteq> None)"
proof -
  have "(\<exists>text. format_attempts_for_ai R attempts = Inr text) \<longleftrightarrow>
          (\<exists>bs. format_loop R attempts [] = Inr bs)"
    by (cases "format_loop R attempts []") (simp_all add: format_attempts_for_ai_def)
  also have "\<dots> \<longleftrightarrow> (\<forall>attempt \<in> set (filter is_mistake attempts). block_of R attempt \<noteq> None)"
    by (simp only: format_loop_Inr_iff map_Some_exists)
  also have "\<dots> \<longleftrightarrow> (\<forall>attempt \<in> set attempts. is_mistake attempt \<longrightarrow> question_of attempt \<noteq> None)"
    by (auto simp: block_of_def split: option.splits)
  finally show ?thesis .
qed

text \<open>
  Claim C2. The claim is that the formatter and \<^verbatim>\<open>generate_report\<close> never raise, also for a
  record whose \<^verbatim>\<open>question\<close> field is present but null. On the attempt
  \<^verbatim>\<open>{"error_type": "silly", "question": null}\<close> the formatter reads
  \<^verbatim>\<open>attempt.get('question', {})\<close>, which is \<open>None\<close> because the key is present, and the
  following \<^verbatim>\<open>.get('topic', 'Unknown')\<close> raises \<open>AttributeError\<close>. Nothing catches it, so it
  leaves \<^verbatim>\<open>generate_report\<close> too.
\<close>

theorem formatter_raises_on_null_question:
  "format_attempts_for_ai opaque_text [attempt_null_question] = Inl AttributeError \<and>
   generate_report (Some failing_client) opaque_text [attempt_null_question] = Inl AttributeError"
  by (simp add: attempt_null_question_def generate_report_def format_attempts_for_ai_def
      format_loop.simps(2) mistake_condition_def format_block_def dict_get_def)

text \<open>
  Claim C1. The claim is that for every list of attempts \<^verbatim>\<open>generate_report\<close> returns the text
  of the client or else the fallback report. On the attempt with a null \<^verbatim>\<open>question\<close> it
  returns neither: the formatter runs before the client is consulted and its exception ends
  the function, with no client configured as well as with a client that would reply \<^verbatim>\<open>X\<close>.
\<close>

theorem report_raises_on_null_question:
  "generate_report None opaque_text [attempt_null_question] = Inl AttributeError \<and>
   generate_report (Some (reply_client ''X'')) opaque_text [attempt_null_question] =
     Inl AttributeError"
  by (simp add: attempt_null_question_def generate_report_def format_attempts_for_ai_def
      format_loop.simps(2) mistake_condition_def format_block_def dict_get_def)

section \<open>The blocks of the formatter\<close>

lemma lines_of_not_Nil: "lines_of s \<noteq> []"
  by (induction s) (auto split: list.splits)

lemma lines_of_break: "lines_of (x @ CHR ''\<newline>'' # y) = lines_of x @ lines_of y"
proof (induction x)
  case Nil
  show ?case by simp
next
  case (Cons c x)
  then show ?case
    using lines_of_not_Nil [of x] by (cases "lines_of x") auto
qed

lemma lines_of_join:
  "bs \<noteq> [] \<Longrightarrow> lines_of (py_join ''\<newline>'' bs) = concat (map lines_of bs)"
proof (induction "''\<newline>''" bs rule: py_join.induct)
  case 1
  then show ?case by simp
next
  case (2 x)
  show ?case by simp
next
  case (3 x y ys)
  then show ?case by (simp add: lines_of_break)
qed

lemma block_text_eq:
  "block_text t e x q =
     ''\<newline>Topic - '' @ t @ ''\<newline>Mistake Type - '' @ e @ ''\<newline>Explanation - '' @ x @
     ''\<newline>Question ID - '' @ q @ ''\<newline>''"
  by (simp add: block_text_def four_lines_def)

text \<open>
  Claim C6, as stated: every emitted block has exactly four lines. The field values are
  interpolated as they are, so an explanation that contains a line break spreads over two
  lines and the block of that attempt has five lines that are not empty.
\<close>

theorem two_line_explanation_block:
  "format_loop opaque_text [attempt_two_line_explanation] [] =
     Inr [''\<newline>Topic - Unknown\<newline>Mistake Type - silly\<newline>Explanation - a\<newline>b\<newline>Question ID - Unknown\<newline>''] \<and>
   text_lines ''\<newline>Topic - Unknown\<newline>Mistake Type - silly\<newline>Explanation - a\<newline>b\<newline>Question ID - Unknown\<newline>'' =
     [''Topic - Unknown'', ''Mistake Type - silly'', ''Explanation - a'', ''b'',
      ''Question ID - Unknown'']"
proof -
  have "format_loop opaque_text [attempt_two_line_explanation] [] =
     Inr [''\<newline>Topic - Unknown\<newline>Mistake Type - silly\<newline>Explanation - a\<newline>b\<newline>Question ID - Unknown\<newline>'']"
    by (simp add: attempt_two_line_explanation_def format_loop.simps(2) mistake_condition_def
        format_block_def dict_get_def)
  moreover have "text_lines ''\<newline>Topic - Unknown\<newline>Mistake Type - silly\<newline>Explanation - a\<newline>b\<newline>Question ID - Unknown\<newline>'' =
     [''Topic - Unknown'', ''Mistake Type - silly'', ''Explanation - a'', ''b'',
      ''Question ID - Unknown'']"
    by (simp add: text_lines_def)
  ultimately show ?thesis by simp
qed

text \<open>
  Claim C6, amended. Whenever the formatter returns, its blocks are those of the included
  attempts, in input order; each block is a line break followed by the four entries Topic,
  Mistake Type, Explanation and Question ID, in that order, each ended by a line break, where
  a field shows \<^verbatim>\<open>Unknown\<close> for an absent topic (or question), error type or question id and
  \<^verbatim>\<open>No explanation provided\<close> for an absent explanation (\<open>block_of\<close>). A block has exactly
  these four lines between its first and last line break whenever the four field texts hold
  no line break. The output joins the blocks with a line break, so its lines are the lines of
  the blocks one after the other, with the empty first and last line of neighbouring blocks
  between them.
\<close>

theorem formatted_blocks:
  assumes "format_loop R attempts [] = Inr bs"
  shows "map Some bs = map (block_of R) (filter is_mistake attempts) \<and>
         format_attempts_for_ai R attempts =
           Inr (if bs = [] then no_mistakes_text else py_join ''\<newline>'' bs) \<and>
         (bs \<noteq> [] \<longrightarrow> lines_of (py_join ''\<newline>'' bs) = concat (map lines_of bs)) \<and>
         block_text t e x q =
           ''\<newline>Topic - '' @ t @ ''\<newline>Mistake Type - '' @ e @ ''\<newline>Explanation - '' @ x @
           ''\<newline>Question ID - '' @ q @ ''\<newline>'' \<and>
         (CHR ''\<newline>'' \<notin> set t \<and> CHR ''\<newline>'' \<notin> set e \<and> CHR ''\<newline>'' \<notin> set x \<and>
          CHR ''\<newline>'' \<notin> set q \<longrightarrow>
            lines_of (block_text t e x q) =
              [Nil, ''Topic - '' @ t, ''Mistake Type - '' @ e, ''Explanation - '' @ x,
               ''Question ID - '' @ q, Nil])"
proof -
  have "map Some bs = map (block_of R) (filter is_mistake attempts)"
    using assms by (simp add: format_loop_Inr_iff)
  moreover have "format_attempts_for_ai R attempts =
           Inr (if bs = [] then no_mistakes_text else py_join ''\<newline>'' bs)"
    using assms by (simp add: format_attempts_for_ai_def)
  moreover have "bs \<noteq> [] \<longrightarrow> lines_of (py_join ''\<newline>'' bs) = concat (map lines_of bs)"
    by (simp add: lines_of_join)
  moreover have "CHR ''\<newline>'' \<notin> set t \<and> CHR ''\<newline>'' \<notin> set e \<and> CHR ''\<newline>'' \<notin> set x \<and>
          CHR ''\<newline>'' \<notin> set q \<longrightarrow>
            lines_of (block_text t e x q) =
              [Nil, ''Topic - '' @ t, ''Mistake Type - '' @ e, ''Explanation - '' @ x,
               ''Question ID - '' @ q, Nil]"
    using lines_of_block_text [of t e x q] by (simp add: four_lines_def)
  ultimately show ?thesis using block_text_eq [of t e x q] by blast
qed

theorem formatted_blocks_witness:
  "format_loop opaque_text [attempt_algebra, attempt_none, attempt_concept] [] =
     Inr [''\<newline>Topic - Algebra\<newline>Mistake Type - silly\<newline>Explanation - sign error\<newline>Question ID - 15\<newline>'',
          ''\<newline>Topic - Unknown\<newline>Mistake Type - concept\<newline>Explanation - No explanation provided\<newline>Question ID - Unknown\<newline>''] \<and>
   format_attempts_for_ai opaque_text [attempt_algebra, attempt_none, attempt_concept] =
     Inr ''\<newline>Topic - Algebra\<newline>Mistake Type - silly\<newline>Explanation - sign error\<newline>Question ID - 15\<newline>\<newline>\<newline>Topic - Unknown\<newline>Mistake Type - concept\<newline>Explanation - No explanation provided\<newline>Question ID - Unknown\<newline>'' \<and>
   lines_of ''\<newline>Topic - Algebra\<newline>Mistake Type - silly\<newline>Explanation - sign error\<newline>Question ID - 15\<newline>'' =
     [Nil, ''Topic - Algebra'', ''Mistake Type - silly'', ''Explanation - sign error'',
      ''Question ID - 15'', Nil]"
proof -
  have run: "format_loop opaque_text [attempt_algebra, attempt_none, attempt_concept] [] =
     Inr [''\<newline>Topic - Algebra\<newline>Mistake Type - silly\<newline>Explanation - sign error\<newline>Question ID - 15\<newline>'',
          ''\<newline>Topic - Unknown\<newline>Mistake Type - concept\<newline>Explanation - No explanation provided\<newline>Question ID - Unknown\<newline>'']"
    by (simp add: attempt_algebra_def attempt_none_def attempt_concept_def
        format_loop.simps(2) mistake_condition_def format_block_def dict_get_def
        str_int_examples)
  show ?thesis
    using run formatted_blocks [OF run, of "''Algebra''" "''silly''" "''sign error''" "''15''"]
    by simp
qed


text \<open>
  Where the \<^verbatim>\<open>question\<close> of an attempt is absent or a dict, a present null explanation gives
  the line \<^verbatim>\<open>Explanation - None\<close>: the block is the one below, with the default text of a
  field only where its key is absent.
\<close>

lemma null_explanation_block:
  assumes "map_of attempt ''explanation'' = Some PNone"
    and "question_of attempt = Some qd"
  shows "format_block R attempt =
           Inr (''\<newline>Topic - '' @ field_text R qd ''topic'' ''Unknown'' @
                ''\<newline>Mistake Type - '' @ field_text R attempt ''error_type'' ''Unknown'' @
                ''\<newline>Explanation - None'' @
                ''\<newline>Question ID - '' @ field_text R attempt ''question_id'' ''Unknown'' @
                ''\<newline>'')"
proof -
  have "field_text R attempt ''explanation'' ''No explanation provided'' = ''None''"
    using assms(1) by (simp add: field_text_def)
  then show ?thesis
    using assms(2) by (simp add: format_block_eq block_of_def block_text_eq)
qed

lemma null_explanation_example:
  "format_loop opaque_text [attempt_null_explanation] [] =
     Inr [''\<newline>Topic - Unknown\<newline>Mistake Type - concept\<newline>Explanation - None\<newline>Question ID - 23\<newline>'']"
  by (simp add: attempt_null_explanation_def format_loop.simps(2) mistake_condition_def
      format_block_def dict_get_def str_int_examples)

text \<open>
  Claim C9. The claim is that for every attempt whose \<^verbatim>\<open>explanation\<close> key holds null and whose
  \<^verbatim>\<open>error_type\<close> qualifies it, the formatter renders the line \<^verbatim>\<open>Explanation - None\<close>. The
  attempt \<^verbatim>\<open>{"error_type": "silly", "explanation": null, "question": null}\<close> meets both
  conditions, and the formatter renders nothing for it: the topic is read before the
  explanation, \<^verbatim>\<open>attempt.get('question', {})\<close> is \<open>None\<close>, and \<^verbatim>\<open>.get('topic', 'Unknown')\<close>
  raises \<open>AttributeError\<close>.
\<close>

theorem null_explanation_raises_on_null_question:
  "map_of attempt_null_explanation_and_question ''explanation'' = Some PNone \<and>
   mistake_condition attempt_null_explanation_and_question = Inr True \<and>
   format_block opaque_text attempt_null_explanation_and_question = Inl AttributeError \<and>
   format_attempts_for_ai opaque_text [attempt_null_explanation_and_question] =
     Inl AttributeError"
  by (simp add: attempt_null_explanation_and_question_def format_attempts_for_ai_def
      format_loop.simps(2) mistake_condition_def format_block_def dict_get_def)

section \<open>The fallback report\<close>

lemma of_char_digit_char: "d < 10 \<Longrightarrow> of_char (digit_char d) = (48 + d :: nat)"
  by (simp add: digit_char_def)

lemma dec_value_snoc: "dec_value (s @ [c]) = 10 * dec_value s + (of_char c - 48)"
  by (simp add: dec_value_def)

lemma dec_value_str_nat: "dec_value (str_nat n) = n"
proof (induction n rule: str_nat.induct)
  case (1 n)
  show ?case
  proof (cases "n < 10")
    case True
    then show ?thesis
      by (simp add: str_nat.simps [of n] dec_value_def of_char_digit_char)
  next
    case False
    then have "dec_value (str_nat (n div 10)) = n div 10"
      using "1.IH" by simp
    then show ?thesis using False
      by (simp add: str_nat.simps [of n] dec_value_snoc of_char_digit_char)
  qed
qed

lemma count_error_type_eq:
  "count_error_type name attempts = int (length (filter (has_error_type name) attempts))"
proof -
  have "\<And>a. (dict_get a ''error_type'' PNone = PStr name) = has_error_type name a"
    by (simp add: dict_get_def has_error_type_def split: option.splits)
  then show ?thesis
    by (induction attempts) (simp_all add: count_error_type_def)
qed

text \<open>
  Claim C5. The fallback report is a fixed text around three decimal numbers: the length of
  the attempt list, the number of attempts whose \<^verbatim>\<open>error_type\<close> equals \<^verbatim>\<open>silly\<close> and the number
  whose \<^verbatim>\<open>error_type\<close> equals \<^verbatim>\<open>concept\<close>; each numeral denotes its number. An attempt whose
  \<^verbatim>\<open>error_type\<close> is absent or \<^verbatim>\<open>none\<close> adds one to the total and nothing to either count.
\<close>

theorem fallback_counts:
  "fallback_report attempts =
     fallback_head @ str_int (int (length attempts)) @ '' questions. You made '' @
     str_int (int (length (filter (has_error_type ''silly'') attempts))) @
     '' silly mistakes and '' @
     str_int (int (length (filter (has_error_type ''concept'') attempts))) @ fallback_tail \<and>
   dec_value (str_int (int n)) = n \<and>
   (map_of attempt ''error_type'' = None \<or> map_of attempt ''error_type'' = Some (PStr ''none'') \<longrightarrow>
      int (length (attempt # attempts)) = int (length attempts) + 1 \<and>
      count_error_type ''silly'' (attempt # attempts) = count_error_type ''silly'' attempts \<and>
      count_error_type ''concept'' (attempt # attempts) = count_error_type ''concept'' attempts)"
proof -
  have "fallback_report attempts =
     fallback_head @ str_int (int (length attempts)) @ '' questions. You made '' @
     str_int (int (length (filter (has_error_type ''silly'') attempts))) @
     '' silly mistakes and '' @
     str_int (int (length (filter (has_error_type ''concept'') attempts))) @ fallback_tail"
    by (simp add: fallback_report_def fallback_head_def fallback_tail_def count_error_type_eq)
  moreover have "dec_value (str_int (int n)) = n"
    by (simp add: str_int_def dec_value_str_nat)
  moreover have "map_of attempt ''error_type'' = None \<or> map_of attempt ''error_type'' = Some (PStr ''none'') \<longrightarrow>
      int (length (attempt # attempts)) = int (length attempts) + 1 \<and>
      count_error_type ''silly'' (attempt # attempts) = count_error_type ''silly'' attempts \<and>
      count_error_type ''concept'' (attempt # attempts) = count_error_type ''concept'' attempts"
    by (auto simp: count_error_type_eq has_error_type_def)
  ultimately show ?thesis by blast
qed

theorem fallback_counts_witness:
  "fallback_report [attempt_silly, attempt_silly, attempt_concept, attempt_none] =
     fallback_head @ ''4 questions. You made 2 silly mistakes and 1'' @ fallback_tail \<and>
   dec_value ''4'' = 4 \<and>
   count_error_type ''silly'' [attempt_none, attempt_silly, attempt_silly, attempt_concept] =
     count_error_type ''silly'' [attempt_silly, attempt_silly, attempt_concept] \<and>
   count_error_type ''concept'' [attempt_none, attempt_silly, attempt_silly, attempt_concept] =
     count_error_type ''concept'' [attempt_silly, attempt_silly, attempt_concept]"
  using fallback_counts [of "[attempt_silly, attempt_silly, attempt_concept, attempt_none]" 4
      attempt_none]
    fallback_counts [of "[attempt_silly, attempt_silly, attempt_concept]" 4 attempt_none]
  by (simp add: attempt_silly_def attempt_concept_def attempt_none_def has_error_type_def
      str_int_examples)


section \<open>The generation client and the orchestrator\<close>

lemma generate_ai_response_fst:
  "fst (generate_ai_response (Some client) S U m) =
     (case converse_and_extract client S U m of Inl e \<Rightarrow> PNone | Inr text \<Rightarrow> text)"
  by (simp add: generate_ai_response_def split: sum.splits)

lemma experiment_generate_ai_response_fst:
  "fst (experiment_generate_ai_response client S U m) =
     (case converse_and_extract client S U m of Inl e \<Rightarrow> PNone | Inr text \<Rightarrow> text)"
  by (simp add: experiment_generate_ai_response_def split: sum.splits)

lemma generate_report_formatted:
  assumes "format_attempts_for_ai R attempts = Inr formatted"
  shows "generate_report bedrock R attempts =
           (if truthy (fst (generate_ai_response bedrock system_prompt formatted default_model_id))
            then ReportResponse
                   (fst (generate_ai_response bedrock system_prompt formatted default_model_id))
            else Inr (fallback_report attempts))"
  using assms
  by (cases bedrock) (simp_all add: generate_report_def generate_ai_response_def Let_def)

text \<open>On the lists on which the formatter returns, the report is the text of the client when
  that is a string that is not empty, and the fallback report when no client is configured
  or the client gave \<open>None\<close> or the empty string.\<close>

lemma generate_report_precedence:
  assumes "format_attempts_for_ai R attempts = Inr formatted"
  shows "fst (generate_ai_response bedrock system_prompt formatted default_model_id) = PStr x \<and>
           x \<noteq> [] \<Longrightarrow> generate_report bedrock R attempts = Inr x"
    and "bedrock = None \<or>
         fst (generate_ai_response bedrock system_prompt formatted default_model_id) = PNone \<or>
         fst (generate_ai_response bedrock system_prompt formatted default_model_id) = PStr []
           \<Longrightarrow> generate_report bedrock R attempts = Inr (fallback_report attempts)"
  using assms
  by (auto simp: generate_report_formatted generate_ai_response_def)

lemma response_text_Inr:
  assumes "map_of d ''output'' = Some (PDict out)"
    and "map_of out ''message'' = Some (PDict msg)"
    and "map_of msg ''content'' = Some (PList (PDict blk # rest))"
    and "map_of blk ''text'' = Some t"
  shows "response_text (PDict d) = Inr t"
  using assms by (simp add: response_text_def seq_index_def)

text \<open>
  Claim C7. For every system prompt and user message the generation client returns \<open>None\<close>
  when no client is configured, when the \<^verbatim>\<open>converse\<close> call raises, and when the response lacks
  a field on the path to the first text (any exception of the extraction); it returns a value
  in each case, so no exception leaves it. This holds for the function of \<^verbatim>\<open>backend.py\<close> and
  for that of \<^verbatim>\<open>experiment.py\<close>. Whenever the client's result is \<open>None\<close>, \<^verbatim>\<open>generate_report\<close>
  behaves exactly as with no client configured.
\<close>

theorem generation_failure_absorbed:
  "fst (generate_ai_response None S U m) = PNone \<and>
   (client m (messages S U) = Inl e \<longrightarrow>
      fst (generate_ai_response (Some client) S U m) = PNone \<and>
      fst (experiment_generate_ai_response client S U m) = PNone) \<and>
   (client m (messages S U) = Inr r \<and> response_text r = Inl e \<longrightarrow>
      fst (generate_ai_response (Some client) S U m) = PNone \<and>
      fst (experiment_generate_ai_response client S U m) = PNone) \<and>
   ((\<forall>formatted. format_attempts_for_ai R attempts = Inr formatted \<longrightarrow>
       fst (generate_ai_response bedrock system_prompt formatted default_model_id) = PNone) \<longrightarrow>
      generate_report bedrock R attempts = generate_report None R attempts)"
proof -
  have a: "fst (generate_ai_response None S U m) = PNone"
    by (simp add: generate_ai_response_def)
  have b: "client m (messages S U) = Inl e \<longrightarrow>
      fst (generate_ai_response (Some client) S U m) = PNone \<and>
      fst (experiment_generate_ai_response client S U m) = PNone"
    by (simp add: generate_ai_response_fst experiment_generate_ai_response_fst
        converse_and_extract_def)
  have c: "client m (messages S U) = Inr r \<and> response_text r = Inl e \<longrightarrow>
      fst (generate_ai_response (Some client) S U m) = PNone \<and>
      fst (experiment_generate_ai_response client S U m) = PNone"
    by (simp add: generate_ai_response_fst experiment_generate_ai_response_fst
        converse_and_extract_def)
  have d: "(\<forall>formatted. format_attempts_for_ai R attempts = Inr formatted \<longrightarrow>
       fst (generate_ai_response bedrock system_prompt formatted default_model_id) = PNone) \<longrightarrow>
      generate_report bedrock R attempts = generate_report None R attempts"
  proof (cases "format_attempts_for_ai R attempts")
    case (Inl err)
    then show ?thesis by (simp add: generate_report_def)
  next
    case (Inr formatted)
    then show ?thesis
      by (simp add: generate_report_formatted generate_ai_response_def [of None])
  qed
  show ?thesis using a b c d by blast
qed

theorem generation_failure_absorbed_witness:
  "fst (generate_ai_response (Some failing_client) ''S'' ''U'' default_model_id) = PNone \<and>
   fst (experiment_generate_ai_response failing_client ''S'' ''U'' default_model_id) = PNone \<and>
   fst (generate_ai_response (Some malformed_client) ''S'' ''U'' default_model_id) = PNone \<and>
   fst (experiment_generate_ai_response malformed_client ''S'' ''U'' default_model_id) = PNone \<and>
   generate_report (Some failing_client) opaque_text [attempt_algebra] =
     generate_report None opaque_text [attempt_algebra]"
proof -
  have f: "failing_client default_model_id (messages ''S'' ''U'') =
             Inl (ServiceError ''connection timed out'')"
    by (simp add: failing_client_def)
  have m: "malformed_client default_model_id (messages ''S'' ''U'') =
             Inr (PDict [(''output'', PDict [(''message'', PDict [(''content'', PList [])])])]) \<and>
           response_text (PDict [(''output'', PDict [(''message'', PDict [(''content'', PList [])])])])
             = Inl IndexError"
    by (simp add: malformed_client_def response_text_def seq_index_def)
  have g: "\<forall>formatted. format_attempts_for_ai opaque_text [attempt_algebra] = Inr formatted \<longrightarrow>
         fst (generate_ai_response (Some failing_client) system_prompt formatted
                default_model_id) = PNone"
    by (simp add: generate_ai_response_fst converse_and_extract_def failing_client_def)
  show ?thesis
    using f m g
      generation_failure_absorbed [of "''S''" "''U''" default_model_id failing_client
        "ServiceError ''connection timed out''" r opaque_text "[attempt_algebra]"
        "Some failing_client" for r]
      generation_failure_absorbed [of "''S''" "''U''" default_model_id malformed_client
        IndexError
        "PDict [(''output'', PDict [(''message'', PDict [(''content'', PList [])])])]"
        opaque_text "[attempt_algebra]" None]
    by simp
qed

text \<open>
  Claim C8. For every system prompt \<open>S\<close> and user message \<open>U\<close> the generation client makes one
  \<^verbatim>\<open>converse\<close> call, whose message list holds exactly one message, of role \<^verbatim>\<open>user\<close>, with one
  content entry whose text is \<open>S\<close>, two line breaks, \<^verbatim>\<open>User: \<close> and \<open>U\<close>. When the response
  carries a content list whose first entry has a text, that text is returned.
\<close>

theorem single_turn_request:
  "snd (generate_ai_response (Some client) S U m) =
     [(m, PList [PDict [(''role'', PStr ''user''),
                        (''content'', PList [PDict [(''text'',
                           PStr (S @ ''\<newline>\<newline>User: '' @ U))]])]])] \<and>
   snd (experiment_generate_ai_response client S U m) =
     [(m, PList [PDict [(''role'', PStr ''user''),
                        (''content'', PList [PDict [(''text'',
                           PStr (S @ ''\<newline>\<newline>User: '' @ U))]])]])] \<and>
   (client m (PList [PDict [(''role'', PStr ''user''),
                        (''content'', PList [PDict [(''text'',
                           PStr (S @ ''\<newline>\<newline>User: '' @ U))]])]]) = Inr (PDict d) \<and>
    map_of d ''output'' = Some (PDict out) \<and>
    map_of out ''message'' = Some (PDict msg) \<and>
    map_of msg ''content'' = Some (PList (PDict blk # rest)) \<and>
    map_of blk ''text'' = Some t \<longrightarrow>
      fst (generate_ai_response (Some client) S U m) = t \<and>
      fst (experiment_generate_ai_response client S U m) = t)"
proof -
  have "snd (generate_ai_response (Some client) S U m) = [(m, messages S U)]"
    by (simp add: generate_ai_response_def split: sum.splits)
  moreover have "snd (experiment_generate_ai_response client S U m) = [(m, messages S U)]"
    by (simp add: experiment_generate_ai_response_def split: sum.splits)
  moreover have "client m (messages S U) = Inr (PDict d) \<and>
    map_of d ''output'' = Some (PDict out) \<and>
    map_of out ''message'' = Some (PDict msg) \<and>
    map_of msg ''content'' = Some (PList (PDict blk # rest)) \<and>
    map_of blk ''text'' = Some t \<longrightarrow>
      fst (generate_ai_response (Some client) S U m) = t \<and>
      fst (experiment_generate_ai_response client S U m) = t"
    by (auto simp: generate_ai_response_fst experiment_generate_ai_response_fst
        converse_and_extract_def response_text_Inr)
  ultimately show ?thesis by (simp add: messages_def)
qed

theorem single_turn_request_witness:
  "snd (generate_ai_response (Some (reply_client ''hello'')) ''S'' ''U'' default_model_id) =
     [(default_model_id,
       PList [PDict [(''role'', PStr ''user''),
                     (''content'', PList [PDict [(''text'', PStr ''S\<newline>\<newline>User: U'')]])]])] \<and>
   fst (generate_ai_response (Some (reply_client ''hello'')) ''S'' ''U'' default_model_id) =
     PStr ''hello'' \<and>
   fst (experiment_generate_ai_response (reply_client ''hello'') ''S'' ''U'' default_model_id) =
     PStr ''hello''"
  using single_turn_request [of "reply_client ''hello''" "''S''" "''U''" default_model_id
      "[(''output'', PDict [(''message'',
              PDict [(''role'', PStr ''assistant''),
                     (''content'', PList [PDict [(''text'', PStr ''hello'')]])])])]"
      "[(''message'', PDict [(''role'', PStr ''assistant''),
                     (''content'', PList [PDict [(''text'', PStr ''hello'')]])])]"
      "[(''role'', PStr ''assistant''), (''content'', PList [PDict [(''text'', PStr ''hello'')]])]"
      "[(''text'', PStr ''hello'')]" Nil "PStr ''hello''"]
  by (simp add: reply_client_def)

end
